theory Spec2Isabelle
  imports
    Complex_Main
    "HOL-Library.Multiset"
    "HOL-Library.Sublist"
    "HOL-Library.List_Lexorder"
    "HOL-Library.Char_ord"
    "HOL-Library.Product_Lexorder"
    "HOL-Library.Word"
begin

section \<open>Transaction Analyzer (calculate.py): data model\<close>

text \<open>
  The script reads one sheet of transactions with pandas, filters it by year, account
  code and month, and shows three metrics, a pivot table and two charts.  A data frame
  is modelled by the list of its rows, in row order.  A missing cell (pandas NaN or
  NaT) is \<open>None\<close> in the sheet and \<open>NaN\<close> in a computed table.

  The values of the \<open>Base Amount\<close> column have the type \<open>'a\<close> of the column's
  dtype: pandas reads a column of whole numbers as int64 and any other numeric column
  as float64.  The arithmetic of the dtype is a parameter of every function that adds
  amounts (see \<open>dtype\<close> below).
\<close>

datatype month =
  January | February | March | April | May | June
  | July | August | September | October | November | December

text \<open>\<open>.dt.month\<close> of a timestamp.\<close>

fun month_number :: "month \<Rightarrow> nat" where
  "month_number January = 1"
| "month_number February = 2"
| "month_number March = 3"
| "month_number April = 4"
| "month_number May = 5"
| "month_number June = 6"
| "month_number July = 7"
| "month_number August = 8"
| "month_number September = 9"
| "month_number October = 10"
| "month_number November = 11"
| "month_number December = 12"

text \<open>\<open>.dt.strftime('%b')\<close> of a timestamp (English month abbreviations).\<close>

fun strftime_b :: "month \<Rightarrow> string" where
  "strftime_b January = ''Jan''"
| "strftime_b February = ''Feb''"
| "strftime_b March = ''Mar''"
| "strftime_b April = ''Apr''"
| "strftime_b May = ''May''"
| "strftime_b June = ''Jun''"
| "strftime_b July = ''Jul''"
| "strftime_b August = ''Aug''"
| "strftime_b September = ''Sep''"
| "strftime_b October = ''Oct''"
| "strftime_b November = ''Nov''"
| "strftime_b December = ''Dec''"

record timestamp =
  ts_year :: int
  ts_month :: month
  ts_day :: nat

text \<open>
  A row of \<open>Sheet1\<close> as \<open>pd.read_excel\<close> returns it: each of the three required
  cells may be missing.  The account code is any ordered type (text or a number).
\<close>

record ('c, 'a) sheet_row =
  transaction_date :: "timestamp option"
  account_code :: "'c option"
  base_amount :: "'a option"

text \<open>A row of \<open>df\<close> after \<open>dropna\<close>: the three cells are present.\<close>

record ('c, 'a) txn =
  Transaction_Date :: timestamp
  Account_Code :: 'c
  Base_Amount :: 'a

text \<open>
  The derived columns \<open>Year\<close>, \<open>Month\<close> and \<open>Month_Num\<close> (lines 63 to 65) are
  computed once from \<open>Transaction Date\<close> and never written again, so they are
  functions of the row.
\<close>

definition Year :: "('c, 'a) txn \<Rightarrow> int" where
  "Year r = ts_year (Transaction_Date r)"

definition Month :: "('c, 'a) txn \<Rightarrow> string" where
  "Month r = strftime_b (ts_month (Transaction_Date r))"

definition Month_Num :: "('c, 'a) txn \<Rightarrow> nat" where
  "Month_Num r = month_number (ts_month (Transaction_Date r))"

section \<open>Loader (lines 58 to 65)\<close>

text \<open>\<open>df.dropna(subset=['Transaction Date', 'Account Code', 'Base Amount'])\<close>.\<close>

definition notna_required :: "('c, 'a) sheet_row \<Rightarrow> bool" where
  "notna_required r =
     (transaction_date r \<noteq> None \<and> account_code r \<noteq> None \<and> base_amount r \<noteq> None)"

definition dropna :: "('c, 'a) sheet_row list \<Rightarrow> ('c, 'a) sheet_row list" where
  "dropna sheet = filter notna_required sheet"

text \<open>The typed view of a sheet row; no value for a row with a missing cell.\<close>

definition to_txn :: "('c, 'a) sheet_row \<Rightarrow> ('c, 'a) txn option" where
  "to_txn r =
     (case transaction_date r of
        None \<Rightarrow> None
      | Some d \<Rightarrow>
          (case account_code r of
             None \<Rightarrow> None
           | Some c \<Rightarrow>
               (case base_amount r of
                  None \<Rightarrow> None
                | Some a \<Rightarrow>
                    Some \<lparr>Transaction_Date = d, Account_Code = c, Base_Amount = a\<rparr>)))"

definition load :: "('c, 'a) sheet_row list \<Rightarrow> ('c, 'a) txn list" where
  "load sheet = List.map_filter to_txn (dropna sheet)"

section \<open>Filter (lines 72 and 83 to 86)\<close>

definition df_year :: "('c, 'a) txn list \<Rightarrow> int \<Rightarrow> ('c, 'a) txn list" where
  "df_year df selected_year = filter (\<lambda>r. Year r = selected_year) df"

definition filtered_df ::
  "('c, 'a) txn list \<Rightarrow> int \<Rightarrow> 'c list \<Rightarrow> string list \<Rightarrow> ('c, 'a) txn list" where
  "filtered_df df selected_year selected_codes selected_months =
     filter (\<lambda>r. Account_Code r \<in> set selected_codes \<and> Month r \<in> set selected_months)
       (df_year df selected_year)"

section \<open>The arithmetic of the amount column\<close>

text \<open>
  What pandas computes when it adds the values of a column depends on the column's
  dtype, and so it is a parameter: the value of a sum of no values (also the fill
  value 0), the reduction of \<open>Series.sum()\<close> and the reduction of a \<open>groupby\<close>
  sum, each applied to the values in row order.

  For an int64 column both reductions are addition modulo \<open>2 ^ 64\<close>: \<open>int64\<close>
  below, on 64-bit words read as signed by \<open>sint\<close>.  For a float64 column they are
  floating-point sums with rounding, which are not modelled: nothing is assumed of the
  parameter then, not even that it is the same for two orders of the values.
\<close>

record 'a dtype =
  dtype_zero :: 'a
  series_sum_of :: "'a list \<Rightarrow> 'a"
  groupby_sum_of :: "'a list \<Rightarrow> 'a"

definition int64 :: "64 word dtype" where
  "int64 = \<lparr>dtype_zero = 0, series_sum_of = sum_list, groupby_sum_of = sum_list\<rparr>"

text \<open>\<open>Series.sum()\<close>, and the sum of one group of a \<open>groupby\<close>.\<close>

definition series_sum :: "'a dtype \<Rightarrow> 'a list \<Rightarrow> 'a" where
  "series_sum dt xs = (if xs = [] then dtype_zero dt else series_sum_of dt xs)"

definition group_sum :: "'a dtype \<Rightarrow> 'a list \<Rightarrow> 'a" where
  "group_sum dt xs = (if xs = [] then dtype_zero dt else groupby_sum_of dt xs)"

section \<open>Key metrics (lines 91 to 93)\<close>

text \<open>
  \<open>Series.mean()\<close>: NaN for no values.  Otherwise it is a float64 quotient whatever
  the dtype; the model keeps the values it is the mean of and does not evaluate it.
\<close>

datatype 'a average = NaN_average | Mean_of "'a list"

definition series_mean :: "'a list \<Rightarrow> 'a average" where
  "series_mean xs = (if xs = [] then NaN_average else Mean_of xs)"

record 'a kpis =
  total_transactions :: nat
  total_amount :: 'a
  avg_per_transaction :: "'a average"

definition KPIs :: "'a dtype \<Rightarrow> ('c, 'a) txn list \<Rightarrow> 'a kpis" where
  "KPIs dt fd =
     \<lparr>total_transactions = length fd,
      total_amount = series_sum dt (map Base_Amount fd),
      avg_per_transaction = series_mean (map Base_Amount fd)\<rparr>"

section \<open>pandas operations used by the pivot table and the bar chart\<close>

text \<open>
  The operations are modelled as pandas 2.2.2 performs them, the version the script
  names in its requirements (line 41).
\<close>

text \<open>\<open>Series.unique()\<close>: the distinct values in order of first appearance.\<close>

definition unique :: "'b list \<Rightarrow> 'b list" where
  "unique xs = rev (remdups (rev xs))"

text \<open>
  A table with row labels (the index) and column labels: each row is its label with
  the cells of the row by column label.  \<open>columns\<close> is kept apart from the rows, as
  a frame with no rows still has columns.
\<close>

datatype 'a cell = Num 'a | NaN

record ('c, 'a) frame =
  columns :: "string list"
  rows :: "('c \<times> (string \<times> 'a cell) list) list"

definition index :: "('c, 'a) frame \<Rightarrow> 'c list" where
  "index t = map fst (rows t)"

definition cell_at :: "('c, 'a) frame \<Rightarrow> 'c \<Rightarrow> string \<Rightarrow> 'a cell option" where
  "cell_at t c m = (case map_of (rows t) c of None \<Rightarrow> None | Some r \<Rightarrow> map_of r m)"

text \<open>
  One cell of \<open>pd.pivot_table(..., aggfunc='sum', fill_value=0)\<close>: the sum of the
  group, and the fill value where the group has no row.
\<close>

definition group_cell :: "'a dtype \<Rightarrow> ('c, 'a) txn list \<Rightarrow> 'c \<Rightarrow> string \<Rightarrow> 'a cell" where
  "group_cell dt data c m =
     (let g = filter (\<lambda>r. Account_Code r = c \<and> Month r = m) data
      in if g = [] then Num (dtype_zero dt) else Num (group_sum dt (map Base_Amount g)))"

text \<open>
  \<open>pd.pivot_table(data, index='Account Code', columns='Month', values='Base Amount',
  aggfunc='sum', fill_value=0)\<close>: the group keys that occur, each axis sorted.
\<close>

definition pivot_table :: "'a dtype \<Rightarrow> ('c::linorder, 'a) txn list \<Rightarrow> ('c, 'a) frame" where
  "pivot_table dt data =
     (let idx = sort (unique (map Account_Code data));
          cols = sort (unique (map Month data))
      in \<lparr>columns = cols,
          rows = map (\<lambda>c. (c, map (\<lambda>m. (m, group_cell dt data c m)) cols)) idx\<rparr>)"

text \<open>
  \<open>pd.pivot_table(data, index='Account Code', values='Base Amount', aggfunc='sum',
  fill_value=0)\<close>: one column, named after the values; a result with no row has
  no column either (\<open>dropna=True\<close> removes a column with no value).
\<close>

definition pivot_table_index_only ::
  "'a dtype \<Rightarrow> ('c::linorder, 'a) txn list \<Rightarrow> ('c, 'a) frame" where
  "pivot_table_index_only dt data =
     \<lparr>columns = (if data = [] then [] else [''Base Amount'']),
      rows = map (\<lambda>c. (c, [(''Base Amount'',
                 Num (group_sum dt (map Base_Amount (filter (\<lambda>r. Account_Code r = c) data))))]))
               (sort (unique (map Account_Code data)))\<rparr>"

text \<open>\<open>frame.reindex(columns=new_columns, fill_value=0)\<close>.\<close>

definition reindex_columns ::
  "'a dtype \<Rightarrow> ('c, 'a) frame \<Rightarrow> string list \<Rightarrow> ('c, 'a) frame" where
  "reindex_columns dt t new_columns =
     \<lparr>columns = new_columns,
      rows = map (\<lambda>(c, r). (c, map (\<lambda>m. (m, case map_of r m of Some v \<Rightarrow> v
                                                | None \<Rightarrow> Num (dtype_zero dt)))
                                 new_columns))
               (rows t)\<rparr>"

datatype error = ValueError | StreamlitAPIException

text \<open>Writes one cell of a row: in place when the column exists, appended otherwise.\<close>

definition put_cell ::
  "string \<Rightarrow> 'a cell \<Rightarrow> (string \<times> 'a cell) list \<Rightarrow> (string \<times> 'a cell) list" where
  "put_cell key v r =
     (if key \<in> fst ` set r then map (\<lambda>(k, x). if k = key then (k, v) else (k, x)) r
      else r @ [(key, v)])"

text \<open>
  \<open>frame[key] = series\<close>.  The series is aligned on the frame's index, a label the
  series lacks giving NaN.  A frame with no rows first takes the index of a series
  that has rows, its existing columns filled with NaN (pandas
  \<open>DataFrame._ensure_valid_index\<close>).
\<close>

definition setitem_series ::
  "('c, 'a) frame \<Rightarrow> string \<Rightarrow> ('c \<times> 'a cell) list \<Rightarrow> ('c, 'a) frame" where
  "setitem_series self key series =
     (let base = (if rows self = [] \<and> series \<noteq> []
                  then map (\<lambda>(c, v). (c, map (\<lambda>m. (m, NaN)) (columns self))) series
                  else rows self)
      in \<lparr>columns = (if key \<in> set (columns self) then columns self else columns self @ [key]),
          rows = map (\<lambda>(c, r). (c, put_cell key (case map_of series c of Some v \<Rightarrow> v | None \<Rightarrow> NaN) r))
                   base\<rparr>)"

text \<open>
  \<open>frame[key] = value\<close> for a frame \<open>value\<close> (pandas
  \<open>DataFrame._set_item_frame_value\<close>): the only column of \<open>value\<close> is assigned as
  a series, and ValueError is raised when \<open>value\<close> has no column or several.
\<close>

definition setitem_frame ::
  "('c, 'a) frame \<Rightarrow> string \<Rightarrow> ('c, 'a) frame \<Rightarrow> error + ('c, 'a) frame" where
  "setitem_frame self key value =
     (case columns value of
        [] \<Rightarrow> Inl ValueError
      | [col] \<Rightarrow>
          Inr (setitem_series self key
                 (map (\<lambda>(c, r). (c, case map_of r col of Some v \<Rightarrow> v | None \<Rightarrow> NaN)) (rows value)))
      | _ \<Rightarrow> Inl ValueError)"

section \<open>Pivot table (lines 101 to 121)\<close>

definition pivot ::
  "'a dtype \<Rightarrow> ('c::linorder, 'a) txn list \<Rightarrow> int \<Rightarrow> 'c list \<Rightarrow> string list
   \<Rightarrow> ('c, 'a) frame" where
  "pivot dt df selected_year selected_codes selected_months =
     reindex_columns dt
       (pivot_table dt (filtered_df df selected_year selected_codes selected_months))
       selected_months"

definition total_pivot ::
  "'a dtype \<Rightarrow> ('c::linorder, 'a) txn list \<Rightarrow> int \<Rightarrow> 'c list \<Rightarrow> ('c, 'a) frame" where
  "total_pivot dt df selected_year selected_codes =
     pivot_table_index_only dt
       (filter (\<lambda>r. Account_Code r \<in> set selected_codes) (df_year df selected_year))"

text \<open>The table handed to \<open>st.dataframe\<close>: \<open>pivot['Total'] = total_pivot\<close>.\<close>

definition pivot_with_total ::
  "'a dtype \<Rightarrow> ('c::linorder, 'a) txn list \<Rightarrow> int \<Rightarrow> 'c list \<Rightarrow> string list
   \<Rightarrow> error + ('c, 'a) frame" where
  "pivot_with_total dt df selected_year selected_codes selected_months =
     setitem_frame (pivot dt df selected_year selected_codes selected_months) ''Total''
       (total_pivot dt df selected_year selected_codes)"

section \<open>Monthly totals for the bar chart (lines 78 and 128 to 130)\<close>

text \<open>\<open>dict(zip(df_year['Month'], df_year['Month_Num']))\<close>: a later row overwrites.\<close>

definition month_map :: "('c, 'a) txn list \<Rightarrow> string \<Rightarrow> nat option" where
  "month_map dy = map_of (rev (zip (map Month dy) (map Month_Num dy)))"

record 'a monthly_row =
  mt_Month :: string
  mt_Base_Amount :: 'a
  mt_Month_Num :: "nat option"

text \<open>\<open>data.groupby('Month').agg({'Base Amount': 'sum'}).reset_index()\<close>.\<close>

definition groupby_month_sum :: "'a dtype \<Rightarrow> ('c, 'a) txn list \<Rightarrow> (string \<times> 'a) list" where
  "groupby_month_sum dt data =
     map (\<lambda>m. (m, group_sum dt (map Base_Amount (filter (\<lambda>r. Month r = m) data))))
       (sort (unique (map Month data)))"

text \<open>The sort key of \<open>sort_values\<close>: ascending, a missing value last.\<close>

definition na_last :: "nat option \<Rightarrow> bool \<times> nat" where
  "na_last n = (case n of Some k \<Rightarrow> (False, k) | None \<Rightarrow> (True, 0))"

definition monthly_totals ::
  "'a dtype \<Rightarrow> (string \<Rightarrow> nat option) \<Rightarrow> ('c, 'a) txn list \<Rightarrow> 'a monthly_row list" where
  "monthly_totals dt mm data =
     sort_key (\<lambda>r. na_last (mt_Month_Num r))
       (map (\<lambda>(m, s). \<lparr>mt_Month = m, mt_Base_Amount = s, mt_Month_Num = mm m\<rparr>)
          (groupby_month_sum dt data))"

section \<open>Sidebar options and the pie chart's totals (lines 74 to 80 and 148)\<close>

definition account_codes :: "('c::linorder, 'a) txn list \<Rightarrow> 'c list" where
  "account_codes dy = sort (unique (map Account_Code dy))"

text \<open>
  \<open>sorted(month_options, key=lambda m: month_map[m])\<close>.  Every option is a key of
  \<open>month_map\<close>, both being read from \<open>df_year\<close>, so the lookup never fails.
\<close>

definition sorted_months :: "('c, 'a) txn list \<Rightarrow> string list" where
  "sorted_months dy =
     sort_key (\<lambda>m. case month_map dy m of Some n \<Rightarrow> n | None \<Rightarrow> 0) (unique (map Month dy))"

definition code_totals :: "'a dtype \<Rightarrow> ('c::linorder, 'a) txn list \<Rightarrow> ('c \<times> 'a) list" where
  "code_totals dt data =
     map (\<lambda>c. (c, group_sum dt (map Base_Amount (filter (\<lambda>r. Account_Code r = c) data))))
       (sort (unique (map Account_Code data)))"

section \<open>The script as a run: what it shows, and how it ends\<close>

text \<open>
  One execution of the script is modelled by the list of Streamlit calls it makes, in
  order, and by how it ends.  The environment of a run is what the script reads: whether
  the import of plotly succeeds, the interpreter's version text, the result of
  \<open>pip list\<close>, the uploaded sheet and the values the three sidebar widgets return.
  The import either succeeds or raises ModuleNotFoundError, the exception the script
  handles; \<open>pip list\<close> either returns its output or raises CalledProcessError.
  Texts are written without their pictographs; numbers shown through a format string
  are kept as numbers.  The source at hand ends at line 161, where the Excel export
  begins, and so does the model.
\<close>

datatype import_result = Imported | ModuleNotFoundError string

datatype pip_result = Pip_output string | CalledProcessError string

record ('c, 'a) environment =
  plotly_import :: import_result
  python_version :: string
  pip_list :: pip_result
  uploaded_file :: "('c, 'a) sheet_row list option"
  sel_year :: int
  sel_codes :: "'c list"
  sel_months :: "string list"

datatype ('c, 'a) figure = Bar "'a monthly_row list" | Pie "('c \<times> 'a) list"

datatype 'a metric_value = Count nat | Amount 'a | Average "'a average"

datatype ('c, 'a) event =
    St_success string
  | St_error string
  | St_write string
  | St_code string
  | St_warning string
  | St_set_page_config
  | St_title string
  | St_markdown string
  | St_download_button string
  | St_divider
  | St_file_uploader
  | St_header string
  | St_selectbox "int list"
  | St_multiselect_codes "'c list"
  | St_multiselect_months "string list"
  | St_metric string "'a metric_value"
  | St_subheader string
  | St_subheader_pivot int
  | St_dataframe "('c, 'a) frame"
  | St_plotly_chart "('c, 'a) figure"

datatype outcome = Completed | Raised error

text \<open>Lines 6 to 26: the import of plotly and its fallback.\<close>

definition pip_report :: "pip_result \<Rightarrow> ('c, 'a) event list" where
  "pip_report pip =
     (case pip of
        Pip_output out \<Rightarrow>
          [St_write ''Installed packages:'', St_code out,
           if \<not> sublist ''plotly'' out
           then St_error ''Plotly is not installed in the environment.''
           else St_write
             ''Plotly is listed as installed, but import failed. Possible version mismatch or corrupted install.'']
      | CalledProcessError e \<Rightarrow> [St_error (''Failed to run pip list: '' @ e)])"

definition startup :: "import_result \<Rightarrow> string \<Rightarrow> pip_result \<Rightarrow> ('c, 'a) event list" where
  "startup imp version pip =
     (case imp of
        Imported \<Rightarrow> [St_success ''Plotly and Plotly Express are installed!'']
      | ModuleNotFoundError e \<Rightarrow>
          [St_error (''Failed to import package: '' @ e),
           St_write (''Python version: '' @ version)]
          @ pip_report pip
          @ [St_write ''Proceeding with the app despite the error (charts may not work).''])"

text \<open>The name \<open>px\<close> is bound exactly when the import succeeded.\<close>

definition px_bound :: "import_result \<Rightarrow> bool" where
  "px_bound imp = (case imp of Imported \<Rightarrow> True | ModuleNotFoundError e \<Rightarrow> False)"

text \<open>
  Line 33.  In streamlit 1.36.0, the version the script names (line 40),
  \<open>st.set_page_config\<close> must be the first Streamlit command of a run: called after
  any other command it raises StreamlitAPIException.  The argument is what the run
  has shown so far.
\<close>

definition set_page_config :: "('c, 'a) event list \<Rightarrow> error + ('c, 'a) event" where
  "set_page_config shown =
     (if shown = [] then Inr St_set_page_config else Inl StreamlitAPIException)"

text \<open>Lines 35 to 54.\<close>

definition page_header :: "('c, 'a) event list" where
  "page_header =
     [St_title ''Transaction Analyzer'',
      St_markdown
        ''Analyze transaction amounts by **Account Code**, with filters, pivot tables, charts, and Excel export.'',
      St_markdown ''### Download Dependencies'',
      St_download_button ''requirements.txt'',
      St_divider,
      St_file_uploader]"

text \<open>Lines 68 to 80.\<close>

definition sidebar :: "('c::linorder, 'a) txn list \<Rightarrow> int \<Rightarrow> ('c, 'a) event list" where
  "sidebar df selected_year =
     [St_header ''Filters'',
      St_selectbox (rev (sort (unique (map Year df)))),
      St_multiselect_codes (account_codes (df_year df selected_year)),
      St_multiselect_months (sorted_months (df_year df selected_year))]"

text \<open>Lines 89 to 95.\<close>

definition key_metrics :: "'a dtype \<Rightarrow> ('c, 'a) txn list \<Rightarrow> ('c, 'a) event list" where
  "key_metrics dt fd =
     [St_markdown ''### Key Metrics'',
      St_metric ''Total Transactions'' (Count (total_transactions (KPIs dt fd))),
      St_metric ''Total Amount'' (Amount (total_amount (KPIs dt fd))),
      St_metric ''Avg per Transaction'' (Average (avg_per_transaction (KPIs dt fd))),
      St_divider]"

text \<open>
  Lines 127 to 160.  With \<open>px\<close> unbound, \<open>px.bar\<close> and \<open>px.pie\<close> raise NameError
  inside their \<open>try\<close>, and the handler shows a warning.
\<close>

definition bar_chart :: "bool \<Rightarrow> 'a monthly_row list \<Rightarrow> ('c, 'a) event list" where
  "bar_chart px mt =
     [St_subheader ''Monthly Total Amount'',
      if px then St_plotly_chart (Bar mt)
      else St_warning ''Bar chart cannot be displayed because Plotly is not available.'']"

definition pie_chart :: "bool \<Rightarrow> ('c \<times> 'a) list \<Rightarrow> ('c, 'a) event list" where
  "pie_chart px ct =
     [St_subheader ''Amount Distribution by Account Code'',
      if px then St_plotly_chart (Pie ct)
      else St_warning ''Pie chart cannot be displayed because Plotly is not available.'']"

text \<open>Lines 57 to 160, for an uploaded sheet.\<close>

definition dashboard ::
  "'a dtype \<Rightarrow> bool \<Rightarrow> ('c::linorder, 'a) sheet_row list \<Rightarrow> int \<Rightarrow> 'c list \<Rightarrow> string list
   \<Rightarrow> ('c, 'a) event list \<times> outcome" where
  "dashboard dt px sheet selected_year selected_codes selected_months =
     (let df = load sheet;
          fd = filtered_df df selected_year selected_codes selected_months;
          shown = sidebar df selected_year @ key_metrics dt fd
                    @ [St_subheader_pivot selected_year]
      in case pivot_with_total dt df selected_year selected_codes selected_months of
           Inl e \<Rightarrow> (shown, Raised e)
         | Inr t \<Rightarrow>
             (shown @ [St_dataframe t]
                @ bar_chart px (monthly_totals dt (month_map (df_year df selected_year)) fd)
                @ pie_chart px (code_totals dt fd),
              Completed))"

text \<open>
  The whole script.  Line 33 is reached after the messages of lines 6 to 26, and an
  exception that nothing handles ends the run.
\<close>

definition run ::
  "'a dtype \<Rightarrow> ('c::linorder, 'a) environment \<Rightarrow> ('c, 'a) event list \<times> outcome" where
  "run dt env =
     (let shown = startup (plotly_import env) (python_version env) (pip_list env)
      in case set_page_config shown of
           Inl e \<Rightarrow> (shown, Raised e)
         | Inr configured \<Rightarrow>
             (let first = shown @ configured # page_header
              in case uploaded_file env of
                   None \<Rightarrow> (first, Completed)
                 | Some sheet \<Rightarrow>
                     (let d = dashboard dt (px_bound (plotly_import env)) sheet
                                (sel_year env) (sel_codes env) (sel_months env)
                      in (first @ fst d, snd d))))"

section \<open>Calendar order\<close>

text \<open>The months from January to December, the order the specification asks for.\<close>

definition calendar :: "month list" where
  "calendar =
     [January, February, March, April, May, June,
      July, August, September, October, November, December]"

section \<open>Example data\<close>

definition on_day :: "int \<Rightarrow> month \<Rightarrow> nat \<Rightarrow> timestamp" where
  "on_day y m d = \<lparr>ts_year = y, ts_month = m, ts_day = d\<rparr>"

definition txn :: "timestamp \<Rightarrow> 'c \<Rightarrow> 'a \<Rightarrow> ('c, 'a) txn" where
  "txn d c a = \<lparr>Transaction_Date = d, Account_Code = c, Base_Amount = a\<rparr>"

definition sheet_row ::
  "timestamp option \<Rightarrow> 'c option \<Rightarrow> 'a option \<Rightarrow> ('c, 'a) sheet_row" where
  "sheet_row d c a = \<lparr>transaction_date = d, account_code = c, base_amount = a\<rparr>"

text \<open>
  The scenario of the specification, a first quarter with a row in March, and two
  rows whose amounts add up to \<open>2 ^ 63\<close>, one more than the largest int64.  All
  three have whole amounts, so their column is int64.
\<close>

definition scenario_df :: "(string, 64 word) txn list" where
  "scenario_df =
     [txn (on_day 2024 January 5) ''A100'' 50,
      txn (on_day 2024 February 10) ''A100'' 30,
      txn (on_day 2024 January 20) ''B200'' 20]"

definition quarter_df :: "(string, 64 word) txn list" where
  "quarter_df =
     [txn (on_day 2024 March 3) ''A100'' 7,
      txn (on_day 2024 January 5) ''A100'' 50,
      txn (on_day 2024 February 10) ''A100'' 30,
      txn (on_day 2024 January 20) ''B200'' 20,
      txn (on_day 2023 March 9) ''B200'' 11]"

definition large_df :: "(string, 64 word) txn list" where
  "large_df =
     [txn (on_day 2024 January 5) ''A100'' 4611686018427387904,
      txn (on_day 2024 January 20) ''A100'' 4611686018427387904]"

definition scenario_sheet :: "(string, 64 word) sheet_row list" where
  "scenario_sheet =
     [sheet_row (Some (on_day 2024 January 5)) (Some ''A100'') (Some 50),
      sheet_row None (Some ''A100'') (Some 4),
      sheet_row (Some (on_day 2024 February 10)) (Some ''A100'') (Some 30),
      sheet_row (Some (on_day 2024 February 11)) None (Some 5),
      sheet_row (Some (on_day 2024 January 20)) (Some ''B200'') (Some 20),
      sheet_row (Some (on_day 2024 January 21)) (Some ''B200'') None]"

definition scenario_env :: "(string, 64 word) environment" where
  "scenario_env =
     \<lparr>plotly_import = ModuleNotFoundError ''No module named plotly'',
      python_version = ''3.11.9'',
      pip_list = Pip_output ''pandas 2.2.2 streamlit 1.36.0'',
      uploaded_file = Some scenario_sheet,
      sel_year = 2024,
      sel_codes = [''A100'', ''B200''],
      sel_months = [''Jan'', ''Feb'']\<rparr>"

section \<open>The filter\<close>

lemma filtered_df_conj:
  "filtered_df df y codes months =
     filter (\<lambda>r. Year r = y \<and> Account_Code r \<in> set codes \<and> Month r \<in> set months) df"
  by (simp add: filtered_df_def df_year_def conj_commute conj_left_commute)

text \<open>
  Claim C4.  The filter returns exactly the rows of its input whose year is the selected
  year, whose account code is among the selected codes and whose month label is among
  the selected months, in their order; with no code selected, or no month selected,
  the result is the empty frame, and no error is involved.
\<close>

theorem filter_exact_subset:
  "filtered_df df y codes months =
     filter (\<lambda>r. Year r = y \<and> Account_Code r \<in> set codes \<and> Month r \<in> set months) df
   \<and> set (filtered_df df y codes months) =
     {r \<in> set df. Year r = y \<and> Account_Code r \<in> set codes \<and> Month r \<in> set months}
   \<and> filtered_df df y [] months = []
   \<and> filtered_df df y codes [] = []"
  by (auto simp: filtered_df_conj)

text \<open>
  Claim C6.  The output of the filter is a part of its input (as a subsequence, as a
  set and as a multiset of rows), and filtering the output again with the same year,
  codes and months returns it unchanged.
\<close>

theorem filter_subset_idempotent:
  "subseq (filtered_df df y codes months) df
   \<and> set (filtered_df df y codes months) \<subseteq> set df
   \<and> mset (filtered_df df y codes months) \<subseteq># mset df
   \<and> filtered_df (filtered_df df y codes months) y codes months = filtered_df df y codes months"
  by (simp add: filtered_df_conj)

section \<open>Sums of an int64 column\<close>

lemma series_sum_int64 [simp]: "series_sum int64 xs = sum_list xs"
  by (simp add: series_sum_def int64_def)

lemma group_sum_int64 [simp]: "group_sum int64 xs = sum_list xs"
  by (simp add: group_sum_def int64_def)

text \<open>
  The signed value of a sum of 64-bit words is the exact sum of the signed values,
  reduced to the signed 64-bit range.
\<close>

lemma sint_sum_list:
  "sint (sum_list xs :: 64 word) = signed_take_bit 63 (\<Sum>x\<leftarrow>xs. sint x)"
proof (induction xs)
  case Nil
  show ?case by simp
next
  case (Cons x xs)
  have "sint (x + sum_list xs) = signed_take_bit 63 (sint x + sint (sum_list xs))"
    by (simp add: sint_word_add)
  also have "\<dots> = signed_take_bit 63 (sint x + signed_take_bit 63 (\<Sum>x\<leftarrow>xs. sint x))"
    using Cons by simp
  also have "\<dots> = signed_take_bit 63 (sint x + (\<Sum>x\<leftarrow>xs. sint x))"
    by (metis signed_take_bit_add signed_take_bit_signed_take_bit min.idem)
  finally show ?case by simp
qed

lemma sint_sum_list_exact:
  "- (2 ^ 63) \<le> (\<Sum>x\<leftarrow>xs. sint x) \<Longrightarrow> (\<Sum>x\<leftarrow>xs. sint x) < 2 ^ 63 \<Longrightarrow>
   sint (sum_list xs :: 64 word) = (\<Sum>x\<leftarrow>xs. sint x)"
  by (simp add: sint_sum_list signed_take_bit_int_eq_self)

section \<open>The key metrics\<close>

text \<open>
  Claim C5.  For every filtered subset the count is the number of its rows; for the
  subset the filter returns, that is the number of the frame's rows that match the
  year, the codes and the months.  The total amount is the sum of the subset's base
  amounts as the column's dtype adds them.  For an int64 column it is the sum of the
  amounts modulo \<open>2 ^ 64\<close>, whatever the order of the rows: its signed value is the
  exact sum reduced to the signed 64-bit range, and the exact sum itself whenever that
  lies between \<open>- 2 ^ 63\<close> and \<open>2 ^ 63 - 1\<close>.
\<close>

theorem KPIs_count_total:
  "total_transactions (KPIs dt fd) = length fd
   \<and> total_transactions (KPIs dt fd) = size (mset fd)
   \<and> total_transactions (KPIs dt (filtered_df df y codes months)) =
       size {#r \<in># mset df. Year r = y \<and> Account_Code r \<in> set codes \<and> Month r \<in> set months#}
   \<and> total_amount (KPIs dt fd) = series_sum dt (map Base_Amount fd)
   \<and> total_amount (KPIs int64 gd) = (\<Sum>r\<leftarrow>gd. Base_Amount r)
   \<and> total_amount (KPIs int64 gd) = (\<Sum>r\<in>#mset gd. Base_Amount r)
   \<and> sint (total_amount (KPIs int64 gd)) = signed_take_bit 63 (\<Sum>r\<leftarrow>gd. sint (Base_Amount r))
   \<and> (- (2 ^ 63) \<le> (\<Sum>r\<leftarrow>gd. sint (Base_Amount r))
        \<and> (\<Sum>r\<leftarrow>gd. sint (Base_Amount r)) < 2 ^ 63
      \<longrightarrow> sint (total_amount (KPIs int64 gd)) = (\<Sum>r\<leftarrow>gd. sint (Base_Amount r)))"
proof -
  have c: "total_transactions (KPIs dt (filtered_df df y codes months)) =
       size {#r \<in># mset df. Year r = y \<and> Account_Code r \<in> set codes \<and> Month r \<in> set months#}"
    by (simp add: KPIs_def filtered_df_conj flip: mset_filter)
  have m: "total_amount (KPIs int64 gd) = (\<Sum>r\<in>#mset gd. Base_Amount r)"
    by (simp add: KPIs_def sum_mset_sum_list flip: mset_map)
  have s: "sint (total_amount (KPIs int64 gd)) =
      signed_take_bit 63 (\<Sum>r\<leftarrow>gd. sint (Base_Amount r))"
    using sint_sum_list[of "map Base_Amount gd"] by (simp add: KPIs_def comp_def)
  have e: "- (2 ^ 63) \<le> (\<Sum>r\<leftarrow>gd. sint (Base_Amount r))
        \<and> (\<Sum>r\<leftarrow>gd. sint (Base_Amount r)) < 2 ^ 63
      \<longrightarrow> sint (total_amount (KPIs int64 gd)) = (\<Sum>r\<leftarrow>gd. sint (Base_Amount r))"
    unfolding s by (simp add: signed_take_bit_int_eq_self)
  show ?thesis
    using c m s e by (simp add: KPIs_def)
qed

text \<open>
  The scenario of the specification: three rows, and the total 100, the exact sum.
\<close>

theorem KPIs_count_total_witness:
  "- (2 ^ 63) \<le> (\<Sum>r\<leftarrow>scenario_df. sint (Base_Amount r))
   \<and> (\<Sum>r\<leftarrow>scenario_df. sint (Base_Amount r)) < 2 ^ 63
   \<and> (\<Sum>r\<leftarrow>scenario_df. sint (Base_Amount r)) = 100
   \<and> sint (total_amount (KPIs int64 scenario_df)) = 100
   \<and> total_transactions (KPIs int64 scenario_df) = 3"
proof -
  have v: "(\<Sum>r\<leftarrow>scenario_df. sint (Base_Amount r)) = 100"
    by code_simp
  have n: "length scenario_df = 3" by (simp add: scenario_df_def)
  note t = KPIs_count_total[of int64 scenario_df scenario_df 2024 "[]" "[]" scenario_df]
  have r: "- (2 ^ 63) \<le> (\<Sum>r\<leftarrow>scenario_df. sint (Base_Amount r))
      \<and> (\<Sum>r\<leftarrow>scenario_df. sint (Base_Amount r)) < 2 ^ 63"
    unfolding v by simp
  have "sint (total_amount (KPIs int64 scenario_df)) =
      (\<Sum>r\<leftarrow>scenario_df. sint (Base_Amount r))"
    using t r by blast
  moreover have "total_transactions (KPIs int64 scenario_df) = length scenario_df"
    using t by blast
  ultimately show ?thesis
    using r v n by simp
qed

text \<open>
  Two amounts of \<open>2 ^ 62\<close>: their sum is \<open>2 ^ 63\<close>, and the total amount of the
  int64 column is \<open>- 2 ^ 63\<close>.
\<close>

theorem KPIs_total_wraps:
  "(\<Sum>r\<leftarrow>large_df. sint (Base_Amount r)) = 2 ^ 63
   \<and> sint (total_amount (KPIs int64 large_df)) = - (2 ^ 63)
   \<and> sint (total_amount (KPIs int64 large_df)) \<noteq> (\<Sum>r\<leftarrow>large_df. sint (Base_Amount r))"
  by code_simp


section \<open>The loader\<close>

lemma to_txn_Some:
  "notna_required r \<Longrightarrow> \<exists>t. to_txn r = Some t"
  by (auto simp: notna_required_def to_txn_def)

lemma to_txn_fields:
  "to_txn r = Some t \<Longrightarrow>
     transaction_date r = Some (Transaction_Date t) \<and> account_code r = Some (Account_Code t)
     \<and> base_amount r = Some (Base_Amount t)"
  by (auto simp: to_txn_def split: option.splits)

lemma map_to_txn_load: "map to_txn (dropna sheet) = map Some (load sheet)"
  unfolding load_def dropna_def
proof (induction sheet)
  case Nil
  show ?case by simp
next
  case (Cons r sheet)
  show ?case
  proof (cases "notna_required r")
    case True
    then obtain t where "to_txn r = Some t" using to_txn_Some by blast
    with True Cons show ?thesis by simp
  next
    case False
    with Cons show ?thesis by simp
  qed
qed

text \<open>
  Claim C7.  Every sheet row kept by the loader has a transaction date, an account code
  and a base amount; a row lacking any of the three is not kept, a row with all three
  is; the kept rows are a subsequence of the sheet, and the loaded frame is these rows,
  one for one and in order.  The loader returns a frame for every sheet: dropping a
  row reports nothing.
\<close>

theorem loaded_rows_have_required_fields:
  "(\<forall>r \<in> set (dropna sheet).
      transaction_date r \<noteq> None \<and> account_code r \<noteq> None \<and> base_amount r \<noteq> None)
   \<and> (\<forall>r \<in> set sheet.
        (transaction_date r = None \<or> account_code r = None \<or> base_amount r = None)
        \<longrightarrow> r \<notin> set (dropna sheet))
   \<and> (\<forall>r \<in> set sheet.
        transaction_date r \<noteq> None \<and> account_code r \<noteq> None \<and> base_amount r \<noteq> None
        \<longrightarrow> r \<in> set (dropna sheet))
   \<and> subseq (dropna sheet) sheet
   \<and> map to_txn (dropna sheet) = map Some (load sheet)
   \<and> (\<forall>t \<in> set (load sheet). \<exists>r \<in> set sheet.
        transaction_date r = Some (Transaction_Date t)
        \<and> account_code r = Some (Account_Code t)
        \<and> base_amount r = Some (Base_Amount t))"
proof -
  have a: "\<forall>t \<in> set (load sheet). \<exists>r \<in> set sheet.
        transaction_date r = Some (Transaction_Date t)
        \<and> account_code r = Some (Account_Code t)
        \<and> base_amount r = Some (Base_Amount t)"
  proof
    fix t assume "t \<in> set (load sheet)"
    then have "Some t \<in> set (map to_txn (dropna sheet))"
      by (simp add: map_to_txn_load)
    then obtain r where "r \<in> set (dropna sheet)" "to_txn r = Some t"
      by auto
    then show "\<exists>r \<in> set sheet.
        transaction_date r = Some (Transaction_Date t)
        \<and> account_code r = Some (Account_Code t)
        \<and> base_amount r = Some (Base_Amount t)"
      using to_txn_fields[of r t] by (auto simp: dropna_def)
  qed
  have b: "subseq (dropna sheet) sheet" by (simp add: dropna_def)
  show ?thesis
    using a b map_to_txn_load[of sheet] by (auto simp: dropna_def notna_required_def)
qed

lemma load_scenario_sheet: "load scenario_sheet = scenario_df"
  by (simp add: load_def dropna_def notna_required_def to_txn_def scenario_sheet_def
      scenario_df_def sheet_row_def txn_def)

theorem loaded_rows_have_required_fields_witness:
  "sheet_row None (Some ''A100'') (Some 4) \<in> set scenario_sheet
   \<and> sheet_row None (Some ''A100'') (Some 4) \<notin> set (dropna scenario_sheet)
   \<and> sheet_row (Some (on_day 2024 January 5)) (Some ''A100'') (Some 50)
       \<in> set (dropna scenario_sheet)
   \<and> txn (on_day 2024 January 5) ''A100'' 50 \<in> set (load scenario_sheet)
   \<and> length (dropna scenario_sheet) = 3"
  using loaded_rows_have_required_fields[of scenario_sheet]
  by (simp add: load_scenario_sheet)
    (simp add: dropna_def notna_required_def scenario_sheet_def scenario_df_def
      sheet_row_def txn_def)

section \<open>Tables: lookups and the column assignment\<close>

lemma set_unique [simp]: "set (unique xs) = set xs"
  by (simp add: unique_def)

lemma distinct_unique [simp]: "distinct (unique xs)"
  by (simp add: unique_def)

lemma map_of_tabulate:
  "map_of (map (\<lambda>k. (k, f k)) ks) k = (if k \<in> set ks then Some (f k) else None)"
  by (induction ks) auto

lemma map_of_keyed_map:
  "map_of (map (\<lambda>(k, v). (k, f k v)) xs) k = map_option (f k) (map_of xs k)"
  by (induction xs) auto

lemma in_index_iff_map_of: "c \<in> set (map fst xs) \<longleftrightarrow> map_of xs c \<noteq> None"
  by (simp add: map_of_eq_None_iff)

lemma map_of_put_cell: "map_of (put_cell key v r) key = Some v"
proof (cases "key \<in> fst ` set r")
  case True
  then have "map_of (map (\<lambda>(k, x). if k = key then (k, v) else (k, x)) r) key = Some v"
    by (induction r) auto
  with True show ?thesis by (simp add: put_cell_def)
next
  case False
  then have "map_of r key = None" by (simp add: map_of_eq_None_iff)
  with False show ?thesis by (simp add: put_cell_def map_add_def)
qed

lemma index_setitem_series:
  "index (setitem_series self key series) =
     (if rows self = [] \<and> series \<noteq> [] then map fst series else index self)"
  by (auto simp: setitem_series_def index_def Let_def comp_def case_prod_unfold)

lemma cell_at_setitem_series:
  "cell_at (setitem_series self key series) c key =
     (if c \<in> set (index (setitem_series self key series))
      then Some (case map_of series c of Some v \<Rightarrow> v | None \<Rightarrow> NaN) else None)"
proof -
  let ?base = "if rows self = [] \<and> series \<noteq> []
               then map (\<lambda>(c, v). (c, map (\<lambda>m. (m, NaN)) (columns self))) series
               else rows self"
  let ?v = "\<lambda>c. case map_of series c of Some v \<Rightarrow> v | None \<Rightarrow> NaN"
  have r: "rows (setitem_series self key series) =
      map (\<lambda>(c, r). (c, put_cell key (?v c) r)) ?base"
    by (simp add: setitem_series_def Let_def)
  have i: "index (setitem_series self key series) = map fst ?base"
    by (simp add: r index_def comp_def case_prod_unfold)
  have m: "map_of (rows (setitem_series self key series)) c =
      map_option (put_cell key (?v c)) (map_of ?base c)"
    unfolding r by (rule map_of_keyed_map)
  show ?thesis
  proof (cases "map_of ?base c")
    case None
    then have "c \<notin> set (map fst ?base)"
      using in_index_iff_map_of[of c ?base] by blast
    with None m show ?thesis
      unfolding cell_at_def i by simp
  next
    case (Some a)
    then have "c \<in> set (map fst ?base)"
      using in_index_iff_map_of[of c ?base] by blast
    with Some m show ?thesis
      unfolding cell_at_def i by (simp add: map_of_put_cell)
  qed
qed

section \<open>The pivot table\<close>

lemma columns_pivot: "columns (pivot dt df y codes months) = months"
  by (simp add: pivot_def reindex_columns_def)

lemma index_pivot:
  "index (pivot dt df y codes months) =
     sort (unique (map Account_Code (filtered_df df y codes months)))"
  by (simp add: pivot_def reindex_columns_def pivot_table_def index_def Let_def comp_def)

lemma rows_pivot_Nil_iff:
  "rows (pivot dt df y codes months) = [] \<longleftrightarrow> filtered_df df y codes months = []"
proof -
  have "rows (pivot dt df y codes months) = [] \<longleftrightarrow> index (pivot dt df y codes months) = []"
    by (simp add: index_def)
  also have "\<dots> \<longleftrightarrow> set (index (pivot dt df y codes months)) = {}"
    by simp
  also have "\<dots> \<longleftrightarrow> filtered_df df y codes months = []"
    unfolding index_pivot by simp
  finally show ?thesis .
qed

lemma filtered_df_of_year_codes:
  "filtered_df df y codes months =
     filter (\<lambda>r. Month r \<in> set months)
       (filter (\<lambda>r. Account_Code r \<in> set codes) (df_year df y))"
  by (simp add: filtered_df_def conj_commute)

lemma year_code_rows:
  "c \<in> set codes \<Longrightarrow>
   filter (\<lambda>r. Account_Code r = c)
       (filter (\<lambda>r. Account_Code r \<in> set codes) (df_year df y)) =
   filter (\<lambda>r. Year r = y \<and> Account_Code r = c) df"
  by (auto simp: df_year_def intro: filter_cong)

text \<open>
  The assignment of line 121 raises when no row of the year has a selected code (then
  \<open>total_pivot\<close> has no column), and otherwise assigns the series of year totals.
\<close>

lemma pivot_with_total_cases:
  "pivot_with_total dt df y codes months =
     (if filter (\<lambda>r. Account_Code r \<in> set codes) (df_year df y) = [] then Inl ValueError
      else Inr (setitem_series (pivot dt df y codes months) ''Total''
             (map (\<lambda>c. (c, Num (group_sum dt (map Base_Amount
                     (filter (\<lambda>r. Account_Code r = c)
                        (filter (\<lambda>r. Account_Code r \<in> set codes) (df_year df y)))))))
                (sort (unique (map Account_Code
                   (filter (\<lambda>r. Account_Code r \<in> set codes) (df_year df y))))))))"
  by (simp add: pivot_with_total_def setitem_frame_def total_pivot_def
      pivot_table_index_only_def comp_def)

lemma pivot_with_total_no_codes: "pivot_with_total dt df y [] months = Inl ValueError"
  by (simp add: pivot_with_total_cases)

lemma pivot_with_total_Inr:
  assumes "pivot_with_total dt df y codes months = Inr t"
  defines "ys \<equiv> filter (\<lambda>r. Account_Code r \<in> set codes) (df_year df y)"
  defines "S \<equiv> map (\<lambda>c. (c, Num (group_sum dt (map Base_Amount
                     (filter (\<lambda>r. Account_Code r = c) ys)))))
                (sort (unique (map Account_Code ys)))"
  shows "ys \<noteq> []" and "t = setitem_series (pivot dt df y codes months) ''Total'' S"
  using assms(1) unfolding pivot_with_total_cases ys_def S_def
  by (auto split: if_splits)

lemma index_pivot_with_total:
  assumes "pivot_with_total dt df y codes months = Inr t"
  shows "index t =
     sort (unique (map Account_Code
       (if filtered_df df y codes months = []
        then filter (\<lambda>r. Account_Code r \<in> set codes) (df_year df y)
        else filtered_df df y codes months)))"
proof -
  let ?ys = "filter (\<lambda>r. Account_Code r \<in> set codes) (df_year df y)"
  let ?S = "map (\<lambda>c. (c, Num (group_sum dt (map Base_Amount
                     (filter (\<lambda>r. Account_Code r = c) ?ys)))))
                (sort (unique (map Account_Code ?ys)))"
  have ne: "?ys \<noteq> []" and t: "t = setitem_series (pivot dt df y codes months) ''Total'' ?S"
    using pivot_with_total_Inr[OF assms] by blast+
  have S: "?S \<noteq> []" using ne by (simp flip: set_empty)
  have f: "map fst ?S = sort (unique (map Account_Code ?ys))"
    by (simp add: comp_def)
  show ?thesis
    unfolding t index_setitem_series rows_pivot_Nil_iff
    using S f by (simp add: index_pivot)
qed

lemma set_index_pivot_with_total:
  assumes "pivot_with_total dt df y codes months = Inr t"
  shows "set (index t) \<subseteq>
     Account_Code ` set (filter (\<lambda>r. Account_Code r \<in> set codes) (df_year df y))"
  unfolding index_pivot_with_total[OF assms]
  by (auto simp: filtered_df_of_year_codes)

lemma total_cell_pivot_with_total:
  assumes "pivot_with_total dt df y codes months = Inr t"
  shows "cell_at t c ''Total'' =
     (if c \<in> set (index t)
      then Some (Num (group_sum dt (map Base_Amount
             (filter (\<lambda>r. Year r = y \<and> Account_Code r = c) df))))
      else None)"
proof -
  let ?ys = "filter (\<lambda>r. Account_Code r \<in> set codes) (df_year df y)"
  let ?tot = "\<lambda>c. Num (group_sum dt (map Base_Amount (filter (\<lambda>r. Account_Code r = c) ?ys)))"
  let ?S = "map (\<lambda>c. (c, ?tot c)) (sort (unique (map Account_Code ?ys)))"
  have t: "t = setitem_series (pivot dt df y codes months) ''Total'' ?S"
    using pivot_with_total_Inr[OF assms] by blast
  show ?thesis
  proof (cases "c \<in> set (index t)")
    case False
    then show ?thesis unfolding t by (simp add: cell_at_setitem_series)
  next
    case True
    then have c: "c \<in> Account_Code ` set ?ys"
      using set_index_pivot_with_total[OF assms] by blast
    then have cc: "c \<in> set codes" by auto
    have "map_of ?S c = Some (?tot c)"
      using c by (simp add: map_of_tabulate)
    then have "cell_at t c ''Total'' = Some (?tot c)"
      using True unfolding t by (simp add: cell_at_setitem_series)
    then show ?thesis using True unfolding year_code_rows[OF cc] by simp
  qed
qed

text \<open>The table of the specification's scenario, computed.\<close>

lemma pivot_with_total_scenario:
  "pivot_with_total int64 scenario_df 2024 [''A100'', ''B200''] [''Jan'', ''Feb''] =
     Inr \<lparr>columns = [''Jan'', ''Feb'', ''Total''],
          rows = [(''A100'', [(''Jan'', Num 50), (''Feb'', Num 30), (''Total'', Num 80)]),
                  (''B200'', [(''Jan'', Num 20), (''Feb'', Num 0), (''Total'', Num 20)])]\<rparr>"
  by code_simp

text \<open>
  Claim C1.  The columns of the pivot table are the selected months in the order in
  which the month widget returned them: line 111 reindexes by \<open>selected_months\<close> and
  nothing sorts that list.  The months offered by the widget are in calendar order
  (Jan, Feb, Mar for the first quarter), but a user who picks March before January
  gets the columns Mar, Jan and not Jan, Mar.
\<close>

theorem pivot_columns_follow_selection:
  "columns (pivot dt df y codes months) = months
   \<and> sorted_months (df_year quarter_df 2024) = [''Jan'', ''Feb'', ''Mar'']
   \<and> pivot_with_total int64 quarter_df 2024 [''A100'', ''B200''] [''Mar'', ''Jan''] =
       Inr \<lparr>columns = [''Mar'', ''Jan'', ''Total''],
            rows = [(''A100'', [(''Mar'', Num 7), (''Jan'', Num 50), (''Total'', Num 87)]),
                    (''B200'', [(''Mar'', Num 0), (''Jan'', Num 20), (''Total'', Num 20)])]\<rparr>"
proof -
  have "sorted_months (df_year quarter_df 2024) = [''Jan'', ''Feb'', ''Mar'']"
    by code_simp
  moreover have
    "pivot_with_total int64 quarter_df 2024 [''A100'', ''B200''] [''Mar'', ''Jan''] =
       Inr \<lparr>columns = [''Mar'', ''Jan'', ''Total''],
            rows = [(''A100'', [(''Mar'', Num 7), (''Jan'', Num 50), (''Total'', Num 87)]),
                    (''B200'', [(''Mar'', Num 0), (''Jan'', Num 20), (''Total'', Num 20)])]\<rparr>"
    by code_simp
  ultimately show ?thesis by (simp add: columns_pivot)
qed

text \<open>
  Claim C2.  Whenever some row of the selected year has a selected account code (so
  for every selection the code widget can return but the empty one), the table is
  produced; every account code that has a row in it is a selected code, and its
  Total is the sum, as the column's dtype adds them, of the base amounts of that code
  over all rows of the selected year, whatever months are selected.  An account code
  that does not occur in the year's rows has the year sum zero and no row in the
  table.  For an int64 column the sum is taken modulo \<open>2 ^ 64\<close>: its signed value is
  the exact sum reduced to the signed 64-bit range, and the exact sum whenever that
  fits.
\<close>

theorem total_column_is_year_sum:
  "(\<exists>r \<in> set (df_year df y). Account_Code r \<in> set codes) \<Longrightarrow>
     (\<exists>t. pivot_with_total dt df y codes months = Inr t
        \<and> (\<forall>c \<in> set (index t).
             c \<in> set codes
             \<and> cell_at t c ''Total'' =
                 Some (Num (group_sum dt (map Base_Amount
                   (filter (\<lambda>r. Year r = y \<and> Account_Code r = c) df)))))
        \<and> (\<forall>c. c \<notin> Account_Code ` set (df_year df y)
             \<longrightarrow> c \<notin> set (index t)
               \<and> group_sum dt (map Base_Amount
                   (filter (\<lambda>r. Year r = y \<and> Account_Code r = c) df)) = dtype_zero dt))
     \<and> group_sum int64 xs = sum_list xs
     \<and> sint (group_sum int64 xs) = signed_take_bit 63 (\<Sum>x\<leftarrow>xs. sint x)
     \<and> (- (2 ^ 63) \<le> (\<Sum>x\<leftarrow>xs. sint x) \<and> (\<Sum>x\<leftarrow>xs. sint x) < 2 ^ 63
          \<longrightarrow> sint (group_sum int64 xs) = (\<Sum>x\<leftarrow>xs. sint x))"
proof -
  assume "\<exists>r \<in> set (df_year df y). Account_Code r \<in> set codes"
  then have "filter (\<lambda>r. Account_Code r \<in> set codes) (df_year df y) \<noteq> []"
    by (auto simp: filter_empty_conv)
  then obtain t where a: "pivot_with_total dt df y codes months = Inr t"
    by (simp add: pivot_with_total_cases)
  have s: "set (index t) \<subseteq>
     Account_Code ` set (filter (\<lambda>r. Account_Code r \<in> set codes) (df_year df y))"
    by (rule set_index_pivot_with_total[OF a])
  have 1: "\<forall>c \<in> set (index t).
             c \<in> set codes
             \<and> cell_at t c ''Total'' =
                 Some (Num (group_sum dt (map Base_Amount
                   (filter (\<lambda>r. Year r = y \<and> Account_Code r = c) df))))"
    using s by (auto simp: total_cell_pivot_with_total[OF a])
  have 2: "\<forall>c. c \<notin> Account_Code ` set (df_year df y)
             \<longrightarrow> c \<notin> set (index t)
               \<and> group_sum dt (map Base_Amount
                   (filter (\<lambda>r. Year r = y \<and> Account_Code r = c) df)) = dtype_zero dt"
  proof (intro allI impI conjI)
    fix c assume n: "c \<notin> Account_Code ` set (df_year df y)"
    show "c \<notin> set (index t)" using s n by auto
    have "filter (\<lambda>r. Year r = y \<and> Account_Code r = c) df = []"
      using n by (auto simp: df_year_def filter_empty_conv)
    then show "group_sum dt (map Base_Amount
        (filter (\<lambda>r. Year r = y \<and> Account_Code r = c) df)) = dtype_zero dt"
      by (simp add: group_sum_def)
  qed
  have 3: "sint (group_sum int64 xs) = signed_take_bit 63 (\<Sum>x\<leftarrow>xs. sint x)"
    by (simp add: sint_sum_list)
  have 4: "- (2 ^ 63) \<le> (\<Sum>x\<leftarrow>xs. sint x) \<and> (\<Sum>x\<leftarrow>xs. sint x) < 2 ^ 63
          \<longrightarrow> sint (group_sum int64 xs) = (\<Sum>x\<leftarrow>xs. sint x)"
    by (simp add: sint_sum_list_exact)
  from a 1 2 have "\<exists>t. pivot_with_total dt df y codes months = Inr t
        \<and> (\<forall>c \<in> set (index t).
             c \<in> set codes
             \<and> cell_at t c ''Total'' =
                 Some (Num (group_sum dt (map Base_Amount
                   (filter (\<lambda>r. Year r = y \<and> Account_Code r = c) df)))))
        \<and> (\<forall>c. c \<notin> Account_Code ` set (df_year df y)
             \<longrightarrow> c \<notin> set (index t)
               \<and> group_sum dt (map Base_Amount
                   (filter (\<lambda>r. Year r = y \<and> Account_Code r = c) df)) = dtype_zero dt)"
    by blast
  with 3 4 show ?thesis by simp
qed

text \<open>
  The scenario of the specification: A100 has the Total 80, the exact sum of its
  amounts in 2024.
\<close>

theorem total_column_is_year_sum_witness:
  "(\<exists>r \<in> set (df_year scenario_df 2024). Account_Code r \<in> set [''A100'', ''B200''])
   \<and> pivot_with_total int64 scenario_df 2024 [''A100'', ''B200''] [''Jan'', ''Feb''] =
     Inr \<lparr>columns = [''Jan'', ''Feb'', ''Total''],
          rows = [(''A100'', [(''Jan'', Num 50), (''Feb'', Num 30), (''Total'', Num 80)]),
                  (''B200'', [(''Jan'', Num 20), (''Feb'', Num 0), (''Total'', Num 20)])]\<rparr>
   \<and> cell_at \<lparr>columns = [''Jan'', ''Feb'', ''Total''],
          rows = [(''A100'', [(''Jan'', Num 50), (''Feb'', Num 30), (''Total'', Num (80 :: 64 word))]),
                  (''B200'', [(''Jan'', Num 20), (''Feb'', Num 0), (''Total'', Num 20)])]\<rparr>
        ''A100'' ''Total'' = Some (Num 80)
   \<and> (\<Sum>r\<leftarrow>filter (\<lambda>r. Year r = 2024 \<and> Account_Code r = ''A100'') scenario_df.
         sint (Base_Amount r)) = 80
   \<and> - (2 ^ 63) \<le> (80 :: int) \<and> (80 :: int) < 2 ^ 63"
proof -
  have h: "\<exists>r \<in> set (df_year scenario_df 2024). Account_Code r \<in> set [''A100'', ''B200'']"
    by (simp add: scenario_df_def df_year_def Year_def txn_def on_day_def)
  have c: "cell_at \<lparr>columns = [''Jan'', ''Feb'', ''Total''],
          rows = [(''A100'', [(''Jan'', Num 50), (''Feb'', Num 30), (''Total'', Num (80 :: 64 word))]),
                  (''B200'', [(''Jan'', Num 20), (''Feb'', Num 0), (''Total'', Num 20)])]\<rparr>
        ''A100'' ''Total'' = Some (Num 80)"
    by (simp add: cell_at_def)
  have v: "(\<Sum>r\<leftarrow>filter (\<lambda>r. Year r = 2024 \<and> Account_Code r = ''A100'') scenario_df.
         sint (Base_Amount r)) = 80"
    by code_simp
  show ?thesis
    using h c v pivot_with_total_scenario
      total_column_is_year_sum[OF h, of int64 "[''Jan'', ''Feb'']" "[]"]
    by simp
qed

text \<open>
  Two rows of A100 with the amount \<open>2 ^ 62\<close> each: the exact sum of the year is
  \<open>2 ^ 63\<close>, and the Total of the int64 column is \<open>- 2 ^ 63\<close>.
\<close>

theorem total_column_wraps:
  "pivot_with_total int64 large_df 2024 [''A100''] [''Jan''] =
     Inr \<lparr>columns = [''Jan'', ''Total''],
          rows = [(''A100'', [(''Jan'', Num 9223372036854775808),
                              (''Total'', Num 9223372036854775808)])]\<rparr>
   \<and> sint (9223372036854775808 :: 64 word) = - (2 ^ 63)
   \<and> (\<Sum>r\<leftarrow>filter (\<lambda>r. Year r = 2024 \<and> Account_Code r = ''A100'') large_df.
         sint (Base_Amount r)) = 2 ^ 63"
  by code_simp

text \<open>
  When the month-filtered subset has a row, the table is produced and its row labels
  are exactly the distinct account codes of that subset, sorted; a selected code whose
  rows of the year all lie in unselected months then has no row, and its Total does
  not appear.
\<close>

lemma pivot_rows_of_nonempty_subset:
  "filtered_df df y codes months \<noteq> [] \<Longrightarrow>
     (\<exists>t. pivot_with_total dt df y codes months = Inr t
        \<and> index t = sort (unique (map Account_Code (filtered_df df y codes months)))
        \<and> set (index t) = Account_Code ` set (filtered_df df y codes months)
        \<and> distinct (index t)
        \<and> (\<forall>c \<in> set codes.
             (\<forall>r \<in> set (df_year df y). Account_Code r = c \<longrightarrow> Month r \<notin> set months)
             \<longrightarrow> c \<notin> set (index t) \<and> cell_at t c ''Total'' = None))"
proof -
  assume ne: "filtered_df df y codes months \<noteq> []"
  then have "filter (\<lambda>r. Account_Code r \<in> set codes) (df_year df y) \<noteq> []"
    unfolding filtered_df_of_year_codes by (metis filter.simps(1))
  then obtain t where t: "pivot_with_total dt df y codes months = Inr t"
    by (simp add: pivot_with_total_cases)
  have i: "index t = sort (unique (map Account_Code (filtered_df df y codes months)))"
    using index_pivot_with_total[OF t] ne by simp
  have s: "set (index t) = Account_Code ` set (filtered_df df y codes months)"
    by (simp add: i)
  have d: "distinct (index t)" by (simp add: i)
  have "\<forall>c \<in> set codes.
             (\<forall>r \<in> set (df_year df y). Account_Code r = c \<longrightarrow> Month r \<notin> set months)
             \<longrightarrow> c \<notin> set (index t) \<and> cell_at t c ''Total'' = None"
    unfolding total_cell_pivot_with_total[OF t] s
    by (auto simp: filtered_df_def)
  with t i s d show ?thesis by blast
qed

text \<open>
  Claim C10.  The rows of the displayed table are the account codes of the
  month-filtered subset only while that subset has a row.  When it is empty the
  assignment of the Total column gives the table the rows of \<open>total_pivot\<close>: with
  B200 and February selected, no row of 2024 matches, and yet the table shows B200
  with its Total 20 and a missing February cell.
\<close>

theorem empty_subset_shows_year_rows:
  "filtered_df scenario_df 2024 [''B200''] [''Feb''] = []
   \<and> pivot_with_total int64 scenario_df 2024 [''B200''] [''Feb''] =
       Inr \<lparr>columns = [''Feb'', ''Total''],
            rows = [(''B200'', [(''Feb'', NaN), (''Total'', Num 20)])]\<rparr>
   \<and> index \<lparr>columns = [''Feb'', ''Total''],
            rows = [(''B200'', [(''Feb'', NaN), (''Total'', Num (20 :: 64 word))])]\<rparr> = [''B200'']
   \<and> cell_at \<lparr>columns = [''Feb'', ''Total''],
            rows = [(''B200'', [(''Feb'', NaN), (''Total'', Num (20 :: 64 word))])]\<rparr>
        ''B200'' ''Total''
       = Some (Num 20)"
  by code_simp

section \<open>The monthly totals\<close>

lemma month_number_calendar: "map month_number calendar = [1..<13]"
  by (simp add: calendar_def upt_rec)

lemma set_calendar: "set calendar = UNIV"
proof -
  have "m \<in> set calendar" for m by (cases m) (simp_all add: calendar_def)
  then show ?thesis by blast
qed

lemma distinct_calendar: "distinct calendar"
  by (simp add: calendar_def)

lemma month_number_inj: "month_number a = month_number b \<Longrightarrow> a = b"
  by (cases a; cases b; simp)

lemma strftime_b_inj: "strftime_b a = strftime_b b \<Longrightarrow> a = b"
  by (cases a; cases b; simp)

lemma month_map_Month:
  assumes "r \<in> set dy"
  shows "month_map dy (Month r) = Some (Month_Num r)"
proof -
  let ?kv = "rev (zip (map Month dy) (map Month_Num dy))"
  have kv: "set ?kv = (\<lambda>r. (Month r, Month_Num r)) ` set dy"
    by (simp add: zip_map_map zip_same_conv_map)
  then have "Month r \<in> fst ` set ?kv" using assms by force
  then obtain v where v: "map_of ?kv (Month r) = Some v"
    by (metis map_of_eq_None_iff not_None_eq)
  then have "(Month r, v) \<in> set ?kv" by (rule map_of_SomeD)
  then have "\<exists>r' \<in> set dy. Month r' = Month r \<and> v = Month_Num r'"
    unfolding kv by force
  then obtain r' where "r' \<in> set dy" "Month r' = Month r" "v = Month_Num r'"
    by blast
  then have "v = Month_Num r"
    by (auto simp: Month_def Month_Num_def dest: strftime_b_inj)
  with v show ?thesis by (simp add: month_map_def)
qed

lemma sorted_False_key:
  "sorted (map (\<lambda>x. (False, f x)) xs) = sorted (map f xs)"
  by (induction xs) auto

lemma distinct_map_sort_key:
  "distinct (map k (sort_key k xs)) = distinct (map k xs)"
proof -
  have "mset (map k (sort_key k xs)) = mset (map k xs)" by simp
  then show ?thesis by (rule mset_eq_imp_distinct_iff)
qed

lemma sorted_by_key_unique:
  assumes "sorted (map k xs)" "sorted (map k ys)" "distinct (map k xs)" "distinct (map k ys)"
    and "set xs = set ys"
  shows "xs = ys"
proof -
  have "map k xs = map k ys"
    using assms by (intro sorted_distinct_set_unique) auto
  moreover have "inj_on k (set xs \<union> set ys)"
    using assms(3,5) by (simp add: distinct_map)
  ultimately show ?thesis by (simp add: inj_on_map_eq_map)
qed

text \<open>
  The monthly totals, for any dtype: the months that occur, in calendar order, each
  with the group sum of its rows' amounts in row order.
\<close>

lemma monthly_totals_calendar:
  assumes sub: "set fd \<subseteq> set dy"
  shows "monthly_totals dt (month_map dy) fd =
     map (\<lambda>m. \<lparr>mt_Month = strftime_b m,
               mt_Base_Amount =
                 group_sum dt (map Base_Amount (filter (\<lambda>r. Month r = strftime_b m) fd)),
               mt_Month_Num = Some (month_number m)\<rparr>)
       (filter (\<lambda>m. strftime_b m \<in> Month ` set fd) calendar)"
    (is "?L = map ?G ?ms")
proof -
  let ?K = "\<lambda>r. na_last (mt_Month_Num r)"
  let ?F = "\<lambda>(m, s). \<lparr>mt_Month = m, mt_Base_Amount = s, mt_Month_Num = month_map dy m\<rparr>"
  let ?X = "map ?F (groupby_month_sum dt fd)"
  have L: "?L = sort_key ?K ?X" by (simp add: monthly_totals_def)
  have FG: "?F (strftime_b m,
        group_sum dt (map Base_Amount (filter (\<lambda>r. Month r = strftime_b m) fd)))
      = ?G m" if "strftime_b m \<in> Month ` set fd" for m
  proof -
    from that obtain r where "r \<in> set fd" "Month r = strftime_b m" by auto
    then have "month_map dy (strftime_b m) = Some (month_number m)"
      using month_map_Month[of r dy] sub strftime_b_inj
      by (auto simp: Month_def Month_Num_def)
    then show ?thesis by simp
  qed
  have setX: "set ?X = set (map ?G ?ms)"
  proof -
    have "set ?X = (\<lambda>l. ?F (l, group_sum dt (map Base_Amount (filter (\<lambda>r. Month r = l) fd))))
        ` (Month ` set fd)"
      by (simp add: groupby_month_sum_def image_image)
    also have "Month ` set fd = strftime_b ` {m. strftime_b m \<in> Month ` set fd}"
      by (auto simp: Month_def)
    also have "(\<lambda>l. ?F (l, group_sum dt (map Base_Amount (filter (\<lambda>r. Month r = l) fd))))
        ` (strftime_b ` {m. strftime_b m \<in> Month ` set fd})
        = ?G ` {m. strftime_b m \<in> Month ` set fd}"
      unfolding image_image using FG by (intro image_cong) auto
    also have "\<dots> = set (map ?G ?ms)"
      by (simp add: set_calendar)
    finally show ?thesis .
  qed
  have dR: "distinct (map ?K (map ?G ?ms))"
    by (auto simp: comp_def distinct_map distinct_calendar inj_on_def na_last_def
        dest: month_number_inj)
  have sR: "sorted (map ?K (map ?G ?ms))"
  proof -
    have "sorted (map month_number calendar)" by (simp add: month_number_calendar)
    then have "sorted (map month_number ?ms)" by (rule sorted_filter)
    then show ?thesis by (simp add: comp_def na_last_def sorted_False_key)
  qed
  have dX: "distinct (map ?K ?X)"
  proof -
    have "distinct ?X \<and> inj_on ?K (set ?X)"
    proof
      show "distinct ?X"
        by (auto simp: groupby_month_sum_def distinct_map comp_def inj_on_def)
      show "inj_on ?K (set ?X)"
        unfolding setX
        by (auto simp: inj_on_def na_last_def dest: month_number_inj)
    qed
    then show ?thesis using distinct_map[of ?K ?X] by blast
  qed
  have "sort_key ?K ?X = map ?G ?ms"
  proof (rule sorted_by_key_unique[where k = ?K])
    show "sorted (map ?K (sort_key ?K ?X))" by (rule sorted_sort_key)
    show "sorted (map ?K (map ?G ?ms))" by (rule sR)
    show "distinct (map ?K (sort_key ?K ?X))" using dX by (simp only: distinct_map_sort_key)
    show "distinct (map ?K (map ?G ?ms))" by (rule dR)
    show "set (sort_key ?K ?X) = set (map ?G ?ms)" using setX by simp
  qed
  with L show ?thesis by simp
qed

lemma monthly_months_calendar:
  assumes sub: "set fd \<subseteq> set dy"
  shows "map mt_Month (monthly_totals dt (month_map dy) fd) =
       map strftime_b (filter (\<lambda>m. strftime_b m \<in> Month ` set fd) calendar)"
    and "map mt_Month_Num (monthly_totals dt (month_map dy) fd) =
       map (\<lambda>m. Some (month_number m)) (filter (\<lambda>m. strftime_b m \<in> Month ` set fd) calendar)"
  unfolding monthly_totals_calendar[OF sub] by (simp_all add: comp_def)

lemma sum_filter_mset_cong:
  "mset fd' = mset (fd :: ('c, 64 word) txn list) \<Longrightarrow>
   (\<Sum>r\<leftarrow>filter Q fd'. Base_Amount r) = (\<Sum>r\<leftarrow>filter Q fd. Base_Amount r)"
proof -
  assume "mset fd' = mset fd"
  then have "image_mset Base_Amount (filter_mset Q (mset fd')) =
      image_mset Base_Amount (filter_mset Q (mset fd))"
    by (simp only:)
  then have "mset (map Base_Amount (filter Q fd')) = mset (map Base_Amount (filter Q fd))"
    by (simp only: mset_map mset_filter)
  then have "sum_mset (mset (map Base_Amount (filter Q fd'))) =
     sum_mset (mset (map Base_Amount (filter Q fd)))"
    by (simp only:)
  then show ?thesis by (simp only: sum_mset_sum_list)
qed

lemma monthly_totals_int64_reorder:
  assumes sub: "set gd \<subseteq> set gy" and e: "mset gd' = mset gd"
  shows "monthly_totals int64 (month_map gy) gd' = monthly_totals int64 (month_map gy) gd"
proof -
  have se: "set gd' = set gd" using e by (rule mset_eq_setD)
  then have sub': "set gd' \<subseteq> set gy" using sub by simp
  show ?thesis
    unfolding monthly_totals_calendar[OF sub] monthly_totals_calendar[OF sub']
    by (simp only: se group_sum_int64 sum_filter_mset_cong[OF e])
qed

text \<open>
  Claim C8.  For every subset of the year's rows and every dtype, the monthly totals
  have one entry for each calendar month that occurs in the subset, from January to
  December, with its label, its number and the sum of the base amounts of the
  subset's rows of that month, as the dtype adds them in row order.  The month
  numbers are strictly ascending, and the months and their order are the same for
  every reordering of the subset's rows.  For an int64 column the whole sequence is
  the same for every reordering, each sum being the sum modulo \<open>2 ^ 64\<close>: its signed
  value is the exact sum reduced to the signed 64-bit range.
\<close>

theorem monthly_totals_calendar_order:
  "(set fd \<subseteq> set dy \<longrightarrow>
      monthly_totals dt (month_map dy) fd =
        map (\<lambda>m. \<lparr>mt_Month = strftime_b m,
                  mt_Base_Amount =
                    group_sum dt (map Base_Amount (filter (\<lambda>r. Month r = strftime_b m) fd)),
                  mt_Month_Num = Some (month_number m)\<rparr>)
          (filter (\<lambda>m. strftime_b m \<in> Month ` set fd) calendar)
      \<and> map mt_Month (monthly_totals dt (month_map dy) fd) =
          map strftime_b (filter (\<lambda>m. strftime_b m \<in> Month ` set fd) calendar)
      \<and> map mt_Month_Num (monthly_totals dt (month_map dy) fd) =
          map (\<lambda>m. Some (month_number m))
            (filter (\<lambda>m. strftime_b m \<in> Month ` set fd) calendar)
      \<and> sorted_wrt (<)
          (map month_number (filter (\<lambda>m. strftime_b m \<in> Month ` set fd) calendar))
      \<and> (\<forall>fd'. mset fd' = mset fd \<longrightarrow>
            map mt_Month (monthly_totals dt (month_map dy) fd') =
              map mt_Month (monthly_totals dt (month_map dy) fd)
            \<and> map mt_Month_Num (monthly_totals dt (month_map dy) fd') =
              map mt_Month_Num (monthly_totals dt (month_map dy) fd)))
   \<and> map month_number calendar = [1..<13]
   \<and> (set gd \<subseteq> set gy \<longrightarrow>
       (\<forall>gd'. mset gd' = mset gd \<longrightarrow>
          monthly_totals int64 (month_map gy) gd' = monthly_totals int64 (month_map gy) gd))
   \<and> group_sum int64 xs = sum_list xs
   \<and> sint (group_sum int64 xs) = signed_take_bit 63 (\<Sum>x\<leftarrow>xs. sint x)"
proof (intro conjI impI allI)
  let ?ms = "filter (\<lambda>m. strftime_b m \<in> Month ` set fd) calendar"
  show "map month_number calendar = [1..<13]" by (rule month_number_calendar)
  show "group_sum int64 xs = sum_list xs" by simp
  show "sint (group_sum int64 xs) = signed_take_bit 63 (\<Sum>x\<leftarrow>xs. sint x)"
    by (simp add: sint_sum_list)
  {
    fix gd'
    assume "set gd \<subseteq> set gy" and "mset gd' = mset gd"
    then show "monthly_totals int64 (month_map gy) gd' = monthly_totals int64 (month_map gy) gd"
      by (rule monthly_totals_int64_reorder)
  }
  assume sub: "set fd \<subseteq> set dy"
  show "monthly_totals dt (month_map dy) fd =
        map (\<lambda>m. \<lparr>mt_Month = strftime_b m,
                  mt_Base_Amount =
                    group_sum dt (map Base_Amount (filter (\<lambda>r. Month r = strftime_b m) fd)),
                  mt_Month_Num = Some (month_number m)\<rparr>) ?ms"
    by (rule monthly_totals_calendar[OF sub])
  show "map mt_Month (monthly_totals dt (month_map dy) fd) = map strftime_b ?ms"
    by (rule monthly_months_calendar(1)[OF sub])
  show "map mt_Month_Num (monthly_totals dt (month_map dy) fd) =
          map (\<lambda>m. Some (month_number m)) ?ms"
    by (rule monthly_months_calendar(2)[OF sub])
  have "sorted (map month_number calendar)" by (simp add: month_number_calendar)
  then have "sorted (map month_number ?ms)" by (rule sorted_filter)
  moreover have "distinct (map month_number ?ms)"
    by (auto simp: distinct_map distinct_calendar inj_on_def dest: month_number_inj)
  ultimately show "sorted_wrt (<) (map month_number ?ms)"
    by (simp only: strict_sorted_iff)
  fix fd'
  assume e: "mset fd' = mset fd"
  have se: "set fd' = set fd" using e by (rule mset_eq_setD)
  then have sub': "set fd' \<subseteq> set dy" using sub by simp
  show "map mt_Month (monthly_totals dt (month_map dy) fd') =
      map mt_Month (monthly_totals dt (month_map dy) fd)"
    unfolding monthly_months_calendar(1)[OF sub] monthly_months_calendar(1)[OF sub']
    by (simp only: se)
  show "map mt_Month_Num (monthly_totals dt (month_map dy) fd') =
      map mt_Month_Num (monthly_totals dt (month_map dy) fd)"
    unfolding monthly_months_calendar(2)[OF sub] monthly_months_calendar(2)[OF sub']
    by (simp only: se)
qed

text \<open>
  The scenario with February selected before January and the subset's rows reversed:
  January still comes first, with the totals 70 and 30.
\<close>

theorem monthly_totals_calendar_order_witness:
  "set (filtered_df scenario_df 2024 [''A100'', ''B200''] [''Feb'', ''Jan''])
     \<subseteq> set (df_year scenario_df 2024)
   \<and> mset (rev (filtered_df scenario_df 2024 [''A100'', ''B200''] [''Feb'', ''Jan''])) =
       mset (filtered_df scenario_df 2024 [''A100'', ''B200''] [''Feb'', ''Jan''])
   \<and> monthly_totals int64 (month_map (df_year scenario_df 2024))
       (rev (filtered_df scenario_df 2024 [''A100'', ''B200''] [''Feb'', ''Jan''])) =
     [\<lparr>mt_Month = ''Jan'', mt_Base_Amount = 70, mt_Month_Num = Some 1\<rparr>,
      \<lparr>mt_Month = ''Feb'', mt_Base_Amount = 30, mt_Month_Num = Some 2\<rparr>]"
proof -
  let ?fd = "filtered_df scenario_df 2024 [''A100'', ''B200''] [''Feb'', ''Jan'']"
  let ?dy = "df_year scenario_df 2024"
  have h: "set ?fd \<subseteq> set ?dy" by (simp add: filtered_df_def)
  have e: "map (\<lambda>m. \<lparr>mt_Month = strftime_b m,
                 mt_Base_Amount =
                   group_sum int64 (map Base_Amount (filter (\<lambda>r. Month r = strftime_b m) ?fd)),
                 mt_Month_Num = Some (month_number m)\<rparr>)
         (filter (\<lambda>m. strftime_b m \<in> Month ` set ?fd) calendar) =
     [\<lparr>mt_Month = ''Jan'', mt_Base_Amount = 70, mt_Month_Num = Some 1\<rparr>,
      \<lparr>mt_Month = ''Feb'', mt_Base_Amount = 30, mt_Month_Num = Some 2\<rparr>]"
    by code_simp
  note t = monthly_totals_calendar_order[of ?fd ?dy int64 ?fd ?dy "[]"]
  have p: "mset (rev ?fd) = mset ?fd" by simp
  have "monthly_totals int64 (month_map ?dy) (rev ?fd) = monthly_totals int64 (month_map ?dy) ?fd"
    using t h p by blast
  also have "\<dots> = map (\<lambda>m. \<lparr>mt_Month = strftime_b m,
                 mt_Base_Amount =
                   group_sum int64 (map Base_Amount (filter (\<lambda>r. Month r = strftime_b m) ?fd)),
                 mt_Month_Num = Some (month_number m)\<rparr>)
         (filter (\<lambda>m. strftime_b m \<in> Month ` set ?fd) calendar)"
    using t h by blast
  finally show ?thesis using h e by simp
qed

text \<open>
  Two January rows with the amount \<open>2 ^ 62\<close> each: the exact sum of January is
  \<open>2 ^ 63\<close>, and the monthly total of the int64 column is \<open>- 2 ^ 63\<close>.
\<close>

theorem monthly_total_wraps:
  "monthly_totals int64 (month_map (df_year large_df 2024))
       (filtered_df large_df 2024 [''A100''] [''Jan'']) =
     [\<lparr>mt_Month = ''Jan'', mt_Base_Amount = 9223372036854775808, mt_Month_Num = Some 1\<rparr>]
   \<and> sint (9223372036854775808 :: 64 word) = - (2 ^ 63)
   \<and> (\<Sum>r\<leftarrow>filter (\<lambda>r. Month r = ''Jan'') (filtered_df large_df 2024 [''A100''] [''Jan'']).
         sint (Base_Amount r)) = 2 ^ 63"
  by code_simp

section \<open>The run\<close>

lemma startup_not_Nil: "startup imp version pip \<noteq> []"
  by (cases imp) (simp_all add: startup_def)

text \<open>
  Claim C9.  The run does not go on after a failed import of plotly.  It shows the
  failed import, the interpreter's version, the report on \<open>pip list\<close> and the
  notice that it proceeds, and then \<open>st.set_page_config\<close> on line 33, no longer the
  first Streamlit command, raises StreamlitAPIException, which nothing handles: no
  metric, no pivot table and no warning in place of a chart is shown.  Every run ends
  so, with or without plotly, since line 9 or line 11 has shown a message before
  line 33.
\<close>

theorem run_stops_at_set_page_config:
  "run dt env =
     (startup (plotly_import env) (python_version env) (pip_list env),
      Raised StreamlitAPIException)
   \<and> run int64 scenario_env =
     ([St_error ''Failed to import package: No module named plotly'',
       St_write ''Python version: 3.11.9'',
       St_write ''Installed packages:'',
       St_code ''pandas 2.2.2 streamlit 1.36.0'',
       St_error ''Plotly is not installed in the environment.'',
       St_write ''Proceeding with the app despite the error (charts may not work).''],
      Raised StreamlitAPIException)"
proof -
  have "run dt env =
     (startup (plotly_import env) (python_version env) (pip_list env),
      Raised StreamlitAPIException)"
    by (simp add: run_def set_page_config_def startup_not_Nil Let_def)
  moreover have "run int64 scenario_env =
     ([St_error ''Failed to import package: No module named plotly'',
       St_write ''Python version: 3.11.9'',
       St_write ''Installed packages:'',
       St_code ''pandas 2.2.2 streamlit 1.36.0'',
       St_error ''Plotly is not installed in the environment.'',
       St_write ''Proceeding with the app despite the error (charts may not work).''],
      Raised StreamlitAPIException)"
    by code_simp
  ultimately show ?thesis by blast
qed

end
